theory Spec2Isabelle
  imports Complex_Main
begin

section \<open>Data model\<close>

text \<open>
  The strategy (\<^verbatim>\<open>smc_strategy.py\<close>) works on a pandas DataFrame with the columns
  \<^verbatim>\<open>time, open, high, low, close, volume\<close>; \<^verbatim>\<open>df[col].iloc[i]\<close> is the field of
  the \<open>i\<close>-th row. A DataFrame is a list of candles here. The price columns are
  cast to \<^verbatim>\<open>float\<close> by the caller; Python's floats are taken as \<^typ>\<open>real\<close>, so
  every arithmetic operation below is exact (no rounding, no NaN, no infinity).
  The dictionaries the code builds have the same keys each time, so each is a
  record; field names carry a prefix where two dictionaries share a key.
\<close>

record candle =
  time_c :: int
  open_c :: real
  high_c :: real
  low_c :: real
  close_c :: real
  volume_c :: real

type_synonym dataframe = "candle list"

datatype ob_type = BULLISH | BEARISH

record order_block =
  ob_type :: ob_type
  ob_high :: real
  ob_low :: real
  ob_time :: int
  confirmed :: bool

datatype choch_type = BULLISH_CHOCH | BEARISH_CHOCH

record choch_point =
  choch_type :: choch_type
  price :: real
  choch_time :: int

datatype engulfing_type = BULLISH_ENGULFING | BEARISH_ENGULFING

record engulfing_pattern =
  engulfing_type :: engulfing_type
  engulfing_time :: int
  strength :: real

section \<open>Pattern detectors\<close>

subsection \<open>Order blocks\<close>

text \<open>
  One iteration of the loop of \<^verbatim>\<open>detect_order_blocks\<close>: the events appended at
  index \<open>i\<close>, in the order of the two \<^verbatim>\<open>if\<close> statements. The conjunctions are
  evaluated left to right, so row \<open>i + 1\<close> is read only when it exists.
\<close>

definition order_blocks_at :: "dataframe \<Rightarrow> nat \<Rightarrow> order_block list" where
  "order_blocks_at df i =
     (if close_c (df ! i) > open_c (df ! i) \<and> i + 1 < length df
         \<and> close_c (df ! (i + 1)) < open_c (df ! (i + 1))
      then [\<lparr>ob_type = BULLISH, ob_high = high_c (df ! i), ob_low = low_c (df ! i),
             ob_time = time_c (df ! i), confirmed = False\<rparr>]
      else [])
     @
     (if close_c (df ! i) < open_c (df ! i) \<and> i + 1 < length df
         \<and> close_c (df ! (i + 1)) > open_c (df ! (i + 1))
      then [\<lparr>ob_type = BEARISH, ob_high = high_c (df ! i), ob_low = low_c (df ! i),
             ob_time = time_c (df ! i), confirmed = False\<rparr>]
      else [])"

text \<open>
  \<^verbatim>\<open>for i in range(lookback, len(df))\<close>: the events of each index, appended in
  index order. \<open>lookback\<close> is a natural number (a negative one would make
  \<^verbatim>\<open>iloc\<close> count from the end).
\<close>

definition detect_order_blocks :: "dataframe \<Rightarrow> nat \<Rightarrow> order_block list" where
  "detect_order_blocks df lookback =
     concat (map (order_blocks_at df) [lookback ..< length df])"

subsection \<open>Change of character\<close>

text \<open>
  \<^verbatim>\<open>Series.max()\<close> and \<^verbatim>\<open>Series.min()\<close> of a slice. On an empty slice pandas
  gives NaN, and every comparison with NaN is false: \<open>None\<close> here.
\<close>

fun series_max :: "real list \<Rightarrow> real option" where
  "series_max [] = None"
| "series_max (x # xs) = Some (foldl max x xs)"

fun series_min :: "real list \<Rightarrow> real option" where
  "series_min [] = None"
| "series_min (x # xs) = Some (foldl min x xs)"

text \<open>The slice \<^verbatim>\<open>xs[a:b]\<close> for \<open>0 \<le> a\<close> and \<open>0 \<le> b\<close>.\<close>

definition slice :: "'a list \<Rightarrow> nat \<Rightarrow> nat \<Rightarrow> 'a list" where
  "slice xs a b = take (b - a) (drop a xs)"

definition gt_opt :: "real \<Rightarrow> real option \<Rightarrow> bool" where
  "gt_opt x m = (case m of None \<Rightarrow> False | Some y \<Rightarrow> x > y)"

definition lt_opt :: "real \<Rightarrow> real option \<Rightarrow> bool" where
  "lt_opt x m = (case m of None \<Rightarrow> False | Some y \<Rightarrow> x < y)"

text \<open>
  One iteration of the loop of \<^verbatim>\<open>detect_choch\<close>. The window is
  \<^verbatim>\<open>iloc[max(0, i-20):i]\<close>; on natural numbers \<open>i - 20\<close> is already
  \<open>max 0 (i - 20)\<close>. The loop starts at \<open>2\<close>, so the window is never empty.
\<close>

definition choch_at :: "dataframe \<Rightarrow> nat \<Rightarrow> choch_point list" where
  "choch_at df i =
     (let recent_high = series_max (map high_c (slice df (i - 20) i));
          recent_low = series_min (map low_c (slice df (i - 20) i))
      in if gt_opt (high_c (df ! i)) recent_high
         then [\<lparr>choch_type = BULLISH_CHOCH, price = high_c (df ! i),
                choch_time = time_c (df ! i)\<rparr>]
         else if lt_opt (low_c (df ! i)) recent_low
         then [\<lparr>choch_type = BEARISH_CHOCH, price = low_c (df ! i),
                choch_time = time_c (df ! i)\<rparr>]
         else [])"

definition detect_choch :: "dataframe \<Rightarrow> choch_point list" where
  "detect_choch df = concat (map (choch_at df) [2 ..< length df])"

subsection \<open>Engulfing patterns\<close>

text \<open>
  One iteration of the loop of \<^verbatim>\<open>detect_engulfing\<close> (\<open>i \<ge> 1\<close>). The rows
  are numpy floats, whose division does not raise; both denominators are non-zero
  whenever their branch is taken.
\<close>

definition engulfing_at :: "dataframe \<Rightarrow> nat \<Rightarrow> engulfing_pattern list" where
  "engulfing_at df i =
     (let prev_open = open_c (df ! (i - 1));
          prev_close = close_c (df ! (i - 1));
          curr_open = open_c (df ! i);
          curr_close = close_c (df ! i)
      in (if prev_close < prev_open \<and> curr_close > prev_open \<and> curr_open < prev_close
          then [\<lparr>engulfing_type = BULLISH_ENGULFING, engulfing_time = time_c (df ! i),
                 strength = (curr_close - curr_open) / (prev_close - prev_open)\<rparr>]
          else [])
         @
         (if prev_close > prev_open \<and> curr_close < prev_open \<and> curr_open > prev_close
          then [\<lparr>engulfing_type = BEARISH_ENGULFING, engulfing_time = time_c (df ! i),
                 strength = (curr_open - curr_close) / (curr_open - prev_open)\<rparr>]
          else []))"

definition detect_engulfing :: "dataframe \<Rightarrow> engulfing_pattern list" where
  "detect_engulfing df = concat (map (engulfing_at df) [1 ..< length df])"

section \<open>Signal generation\<close>

datatype direction = NEUTRAL | BUY | SELL

text \<open>
  The dictionary returned by \<^verbatim>\<open>generate_signal\<close>. \<^verbatim>\<open>calculate_position\<close> reads
  one more key with \<^verbatim>\<open>signal.get('entry_price', 10000)\<close>: \<open>sig_entry_price\<close> is
  \<open>None\<close> when the dictionary has no such key.
\<close>

record signal =
  sig_symbol :: string
  direction :: direction
  confidence :: real
  sig_order_blocks :: "order_block list"
  sig_choch :: "choch_point option"
  sig_engulfing :: "engulfing_pattern option"
  timestamp :: "int option"
  sig_entry_price :: "real option"

text \<open>
  The three blocks of \<^verbatim>\<open>generate_signal\<close> that update the local variables
  \<^verbatim>\<open>signal_strength\<close> and \<^verbatim>\<open>direction\<close>, each a function on that pair.
\<close>

definition order_block_vote :: "order_block list \<Rightarrow> real \<times> direction \<Rightarrow> real \<times> direction" where
  "order_block_vote order_blocks = (\<lambda>(signal_strength, dir).
     if order_blocks \<noteq> [] then
       (if ob_type (last order_blocks) = BULLISH
        then (signal_strength + 4 / 10, BUY)
        else (signal_strength + 4 / 10, SELL))
     else (signal_strength, dir))"

definition choch_vote :: "choch_point list \<Rightarrow> real \<times> direction \<Rightarrow> real \<times> direction" where
  "choch_vote choch = (\<lambda>(signal_strength, dir).
     if choch \<noteq> [] then
       (if choch_type (last choch) = BULLISH_CHOCH
        then (signal_strength + 3 / 10, if dir = NEUTRAL then BUY else dir)
        else (signal_strength + 3 / 10, if dir = NEUTRAL then SELL else dir))
     else (signal_strength, dir))"

definition engulfing_vote :: "engulfing_pattern list \<Rightarrow> real \<times> direction \<Rightarrow> real \<times> direction" where
  "engulfing_vote engulfing = (\<lambda>(signal_strength, dir).
     if engulfing \<noteq> [] then
       (if engulfing_type (last engulfing) = BULLISH_ENGULFING
        then (signal_strength + 3 / 10, if dir = NEUTRAL then BUY else dir)
        else (signal_strength + 3 / 10, if dir = NEUTRAL then SELL else dir))
     else (signal_strength, dir))"

definition last_opt :: "'a list \<Rightarrow> 'a option" where
  "last_opt xs = (if xs \<noteq> [] then Some (last xs) else None)"

definition generate_signal :: "dataframe \<Rightarrow> string \<Rightarrow> signal option" where
  "generate_signal df symbol =
     (let order_blocks = detect_order_blocks df 50;
          choch = detect_choch df;
          engulfing = detect_engulfing df;
          (signal_strength, dir) =
             engulfing_vote engulfing (choch_vote choch
               (order_block_vote order_blocks (0, NEUTRAL)))
      in if signal_strength \<ge> 5 / 10 then
           Some \<lparr>sig_symbol = symbol, direction = dir,
                 confidence = min signal_strength 1,
                 sig_order_blocks = drop (length order_blocks - 3) order_blocks,
                 sig_choch = last_opt choch,
                 sig_engulfing = last_opt engulfing,
                 timestamp = (if length df > 0 then Some (time_c (last df)) else None),
                 sig_entry_price = None\<rparr>
         else None)"

section \<open>Position sizing\<close>

record risk_params =
  max_risk_per_trade :: real
  max_position_size :: real
  reward_risk_ratio :: real
  max_drawdown :: real
  max_open_trades :: int

text \<open>\<^verbatim>\<open>RISK_PARAMS\<close> of \<^verbatim>\<open>config.py\<close>.\<close>

definition RISK_PARAMS :: risk_params where
  "RISK_PARAMS = \<lparr>max_risk_per_trade = 1 / 100, max_position_size = 5 / 100,
     reward_risk_ratio = 2, max_drawdown = 15 / 100, max_open_trades = 3\<rparr>"

record position =
  entry_price :: real
  stop_loss :: real
  take_profit :: real
  position_size :: real
  side :: direction
  risk_amount :: real
  potential_profit :: real

datatype py_error = ZeroDivisionError | ValueError | TypeError | KeyError

text \<open>
  \<^verbatim>\<open>calculate_position\<close>; the first argument is \<^verbatim>\<open>self.risk_params\<close>. The
  signal is \<open>None\<close> for a falsy argument. The entry price and the balance are
  Python floats (or the integer default), so the division by a zero entry price
  in \<^verbatim>\<open>max_size\<close> raises.
\<close>

definition calculate_position ::
    "risk_params \<Rightarrow> signal option \<Rightarrow> real \<Rightarrow> py_error + position option" where
  "calculate_position rp sg account_balance =
     (case sg of
        None \<Rightarrow> Inr None
      | Some signal \<Rightarrow>
          if confidence signal < 5 / 10 then Inr None
          else
            (let risk_amount = account_balance * max_risk_per_trade rp;
                 entry_price = (case sig_entry_price signal of None \<Rightarrow> 10000 | Some p \<Rightarrow> p);
                 (stop_loss, take_profit) =
                    (if direction signal = BUY
                     then (entry_price * (98 / 100),
                           entry_price * (1 + reward_risk_ratio rp * (2 / 100)))
                     else (entry_price * (102 / 100),
                           entry_price * (1 - reward_risk_ratio rp * (2 / 100))));
                 sl_distance = \<bar>entry_price - stop_loss\<bar>;
                 position_size = (if sl_distance > 0 then risk_amount / sl_distance else 0)
             in if entry_price = 0 then Inl ZeroDivisionError
                else
                  (let max_size = account_balance * max_position_size rp / entry_price;
                       position_size = min position_size max_size
                   in Inr (Some \<lparr>entry_price = entry_price, stop_loss = stop_loss,
                         take_profit = take_profit, position_size = position_size,
                         side = direction signal, risk_amount = risk_amount,
                         potential_profit = position_size * \<bar>take_profit - entry_price\<bar>\<rparr>))))"

section \<open>Trade ledger\<close>

text \<open>
  \<^verbatim>\<open>app.py\<close> keeps the trades in the global dictionary \<^verbatim>\<open>bot_state\<close>. A trade is
  a dictionary that sits in the list \<^verbatim>\<open>open_trades\<close> and is mutated in place by
  \<^verbatim>\<open>update_open_trades\<close>, which iterates over a copy of that list holding the same
  objects. The trade objects therefore live in a store, \<open>objects\<close>, and the two
  lists hold references (indices into the store); a new dictionary is
  allocated at the end of the store. The key \<^verbatim>\<open>closed_at\<close> exists only after
  the trade was closed.
\<close>

datatype trade_status = OPEN | CLOSED

record trade =
  trade_id :: int
  symbol :: string
  trade_side :: direction
  trade_entry_price :: real
  trade_size :: real
  trade_stop_loss :: real
  trade_take_profit :: real
  risk :: real
  trade_potential_profit :: real
  pnl :: real
  status :: trade_status
  opened_at :: string
  closed_at :: "string option"

type_synonym ref = nat

record bot_state =
  running :: bool
  environment :: string
  account_balance :: real
  open_trades :: "ref list"
  closed_trades :: "ref list"
  total_pnl :: real
  win_count :: int
  loss_count :: int
  last_update :: string
  objects :: "trade list"

text \<open>The module-level \<^verbatim>\<open>bot_state\<close>; \<open>now\<close> is what \<^verbatim>\<open>datetime.now()\<close> read.\<close>

definition initial_bot_state :: "string \<Rightarrow> string \<Rightarrow> bot_state" where
  "initial_bot_state env now =
     \<lparr>running = False, environment = env, account_balance = 10000,
      open_trades = [], closed_trades = [], total_pnl = 0,
      win_count = 0, loss_count = 0, last_update = now, objects = []\<rparr>"

text \<open>\<^verbatim>\<open>bot_state['open_trades'].append(trade)\<close> for a freshly built dictionary.\<close>

definition open_trades_append :: "trade \<Rightarrow> bot_state \<Rightarrow> bot_state" where
  "open_trades_append trade s =
     s\<lparr>objects := objects s @ [trade],
       open_trades := open_trades s @ [length (objects s)]\<rparr>"

text \<open>
  The end of the per-symbol block of \<^verbatim>\<open>trading_loop\<close>: the order result is
  \<open>None\<close> when the client returned nothing or a reply without \<^verbatim>\<open>'result'\<close>,
  and the order id otherwise. \<^verbatim>\<open>upper()\<close> leaves the side as it is.
\<close>

definition record_order :: "int option \<Rightarrow> string \<Rightarrow> position \<Rightarrow> string \<Rightarrow> bot_state \<Rightarrow> bot_state" where
  "record_order order_result smb pos now s =
     (case order_result of
        None \<Rightarrow> s
      | Some order_id \<Rightarrow>
          open_trades_append
            \<lparr>trade_id = order_id, symbol = smb, trade_side = side pos,
             trade_entry_price = entry_price pos, trade_size = position_size pos,
             trade_stop_loss = stop_loss pos, trade_take_profit = take_profit pos,
             risk = risk_amount pos, trade_potential_profit = potential_profit pos,
             pnl = 0, status = OPEN, opened_at = now, closed_at = None\<rparr> s)"

text \<open>
  The ledger's \<open>insert\<close> as the specification words it (section 4.4): it
  fails with \<open>DuplicateId\<close> if the id is already in the open set. It is compared
  with \<open>open_trades_append\<close> below.
\<close>

datatype ledger_error = DuplicateId

definition open_ids :: "bot_state \<Rightarrow> int list" where
  "open_ids s = map (\<lambda>r. trade_id (objects s ! r)) (open_trades s)"

definition insert_spec :: "trade \<Rightarrow> bot_state \<Rightarrow> ledger_error + bot_state" where
  "insert_spec trade s =
     (if trade_id trade \<in> set (open_ids s) then Inl DuplicateId
      else Inr (open_trades_append trade s))"

subsection \<open>Reconciliation\<close>

text \<open>
  The reply of \<^verbatim>\<open>get_positions\<close> is whatever JSON the exchange sent, so the
  entries of \<^verbatim>\<open>positions['result']\<close> are not known to be well typed. Every
  statement of the loop body that can raise on such an entry is a branch below;
  the \<^verbatim>\<open>except\<close> of the body catches all of them.

  What \<^verbatim>\<open>pos['product_symbol']\<close> finds: a string, a value of another type
  (equal to no symbol), no such key (\<^verbatim>\<open>KeyError\<close>), or an entry that is not a
  dictionary at all (\<^verbatim>\<open>TypeError\<close>).
\<close>

datatype symbol_field = Symbol string | NotAString | NoKey | NotADict

text \<open>
  A value handed to \<^verbatim>\<open>float()\<close>: \<open>Numeric x\<close> is a number, a boolean or a
  string that \<^verbatim>\<open>float()\<close> converts, with the finite value \<open>x\<close>; on \<open>Null\<close> (JSON null)
  \<^verbatim>\<open>float()\<close> raises \<^verbatim>\<open>TypeError\<close>; \<open>NonNumeric\<close> is any other value (a string
  that is no number, a list, a dictionary), on which it raises as well.
\<close>

datatype json_number = Numeric real | Null | NonNumeric

text \<open>
  An entry of \<^verbatim>\<open>positions['result']\<close>. The two numeric keys are read with
  \<^verbatim>\<open>get(key, 0)\<close>: \<open>None\<close> is an absent key.
\<close>

record exchange_position =
  product_symbol :: symbol_field
  realized_pnl :: "json_number option"
  size_p :: "json_number option"

text \<open>\<^verbatim>\<open>float(matching_pos.get(key, 0))\<close> for the value \<open>v\<close> of the key.\<close>

definition py_float_get :: "json_number option \<Rightarrow> py_error + real" where
  "py_float_get v =
     (case v of
        None \<Rightarrow> Inr 0
      | Some (Numeric x) \<Rightarrow> Inr x
      | Some Null \<Rightarrow> Inl TypeError
      | Some NonNumeric \<Rightarrow> Inl ValueError)"

text \<open>
  The inner search loop: the first entry with the trade's symbol. Reading the
  symbol of an entry before the first match may raise; the search is then
  abandoned.
\<close>

fun matching_pos :: "exchange_position list \<Rightarrow> trade \<Rightarrow> py_error + exchange_position option" where
  "matching_pos [] trade = Inr None"
| "matching_pos (pos # rest) trade =
     (case product_symbol pos of
        NoKey \<Rightarrow> Inl KeyError
      | NotADict \<Rightarrow> Inl TypeError
      | NotAString \<Rightarrow> matching_pos rest trade
      | Symbol x \<Rightarrow> if x = symbol trade then Inr (Some pos) else matching_pos rest trade)"

text \<open>
  \<^verbatim>\<open>list.remove(x)\<close> removes the first item that is \<^verbatim>\<open>x\<close> or equal to it
  (dictionaries compare by content) and raises \<^verbatim>\<open>ValueError\<close>, here \<open>None\<close>,
  when there is none.
\<close>

fun list_remove :: "trade list \<Rightarrow> ref list \<Rightarrow> ref \<Rightarrow> ref list option" where
  "list_remove objs [] r = None"
| "list_remove objs (x # xs) r =
     (if x = r \<or> objs ! x = objs ! r then Some xs
      else map_option ((#) x) (list_remove objs xs r))"

text \<open>
  The body of the loop of \<^verbatim>\<open>update_open_trades\<close> for the trade object \<open>tr\<close>.
  Whatever is raised inside is caught by the \<^verbatim>\<open>except\<close> of the body: the
  statements after the raising one are skipped and the mutations before it
  stay. So a failed search or a failed read of \<^verbatim>\<open>realized_pnl\<close> leaves the
  state as it is, a failed read of \<^verbatim>\<open>size\<close> leaves the new pnl in the trade,
  and a \<^verbatim>\<open>ValueError\<close> of \<^verbatim>\<open>remove\<close> leaves the trade marked closed in the open
  list.
\<close>

definition update_trade :: "exchange_position list \<Rightarrow> string \<Rightarrow> ref \<Rightarrow> bot_state \<Rightarrow> bot_state" where
  "update_trade result now tr s =
     (case matching_pos result (objects s ! tr) of
        Inl e \<Rightarrow> s
      | Inr None \<Rightarrow> s
      | Inr (Some pos) \<Rightarrow>
          (case py_float_get (realized_pnl pos) of
             Inl e \<Rightarrow> s
           | Inr new_pnl \<Rightarrow>
               (let s1 = s\<lparr>objects := (objects s)[tr := (objects s ! tr)\<lparr>pnl := new_pnl\<rparr>]\<rparr>
                in case py_float_get (size_p pos) of
                     Inl e \<Rightarrow> s1
                   | Inr sz \<Rightarrow>
                       if sz = 0 then
                         (let s2 = s1\<lparr>objects := (objects s1)
                                     [tr := (objects s1 ! tr)\<lparr>status := CLOSED, closed_at := Some now\<rparr>]\<rparr>
                          in case list_remove (objects s2) (open_trades s2) tr of
                               None \<Rightarrow> s2
                             | Some rest \<Rightarrow>
                                 (let s3 = s2\<lparr>open_trades := rest,
                                              closed_trades := closed_trades s2 @ [tr],
                                              total_pnl := total_pnl s2 + pnl (objects s2 ! tr)\<rparr>
                                  in if pnl (objects s3 ! tr) > 0
                                     then s3\<lparr>win_count := win_count s3 + 1\<rparr>
                                     else s3\<lparr>loss_count := loss_count s3 + 1\<rparr>))
                       else s1)))"

text \<open>
  \<^verbatim>\<open>update_open_trades\<close>: \<open>positions\<close> is \<open>None\<close> when the client returned
  nothing or a reply without \<^verbatim>\<open>'result'\<close>, and also when \<^verbatim>\<open>positions['result']\<close>
  cannot be iterated: the inner \<^verbatim>\<open>for\<close> then raises for every trade before
  anything is written. The loop runs over the list as it was when the loop
  started (\<^verbatim>\<open>open_trades[:]\<close>). Every \<^verbatim>\<open>datetime.now()\<close> of one pass reads
  \<open>now\<close>.
\<close>

definition update_open_trades :: "exchange_position list option \<Rightarrow> string \<Rightarrow> bot_state \<Rightarrow> bot_state" where
  "update_open_trades positions now s =
     (case positions of
        None \<Rightarrow> s
      | Some result \<Rightarrow> fold (update_trade result now) (open_trades s) s)"

subsection \<open>Status\<close>

record status_report =
  st_running :: bool
  st_environment :: string
  st_account_balance :: real
  st_open_trades :: nat
  total_trades :: int
  st_total_pnl :: real
  win_rate :: real
  st_last_update :: string

text \<open>Python's \<^verbatim>\<open>/\<close> on two integers raises when the divisor is zero.\<close>

definition truediv :: "int \<Rightarrow> int \<Rightarrow> py_error + real" where
  "truediv a b = (if b = 0 then Inl ZeroDivisionError else Inr (real_of_int a / real_of_int b))"

definition get_status :: "string \<Rightarrow> bot_state \<Rightarrow> py_error + status_report" where
  "get_status now s =
     (let total = win_count s + loss_count s
      in case (if total > 0 then truediv (win_count s) total else Inr 0) of
           Inl e \<Rightarrow> Inl e
         | Inr rate \<Rightarrow>
             Inr \<lparr>st_running = running s, st_environment = environment s,
                  st_account_balance = account_balance s,
                  st_open_trades = length (open_trades s), total_trades = total,
                  st_total_pnl = total_pnl s, win_rate = rate, st_last_update = now\<rparr>)"

subsection \<open>Reachable bot states\<close>

definition start_bot :: "bot_state \<Rightarrow> bot_state" where
  "start_bot s = s\<lparr>running := True\<rparr>"

definition stop_bot :: "bot_state \<Rightarrow> bot_state" where
  "stop_bot s = s\<lparr>running := False\<rparr>"

text \<open>\<^verbatim>\<open>switch_environment\<close> with \<^verbatim>\<open>update_environment\<close> of \<^verbatim>\<open>config.py\<close>.\<close>

definition switch_environment :: "string \<Rightarrow> bot_state \<Rightarrow> bot_state" where
  "switch_environment env s =
     (if env = ''testnet'' \<or> env = ''live'' then s\<lparr>environment := env\<rparr> else s)"

text \<open>The wallet refresh at the top of a cycle of \<^verbatim>\<open>trading_loop\<close>.\<close>

definition refresh_balance :: "real option \<Rightarrow> bot_state \<Rightarrow> bot_state" where
  "refresh_balance wallet s =
     (case wallet of None \<Rightarrow> s | Some b \<Rightarrow> s\<lparr>account_balance := b\<rparr>)"

text \<open>
  The states the program can be in: the initial one, and what the writers of
  \<^verbatim>\<open>bot_state\<close> make of a reachable state.
\<close>

inductive reachable :: "bot_state \<Rightarrow> bool" where
  reach_init: "reachable (initial_bot_state env now)"
| reach_start: "reachable s \<Longrightarrow> reachable (start_bot s)"
| reach_stop: "reachable s \<Longrightarrow> reachable (stop_bot s)"
| reach_env: "reachable s \<Longrightarrow> reachable (switch_environment env s)"
| reach_balance: "reachable s \<Longrightarrow> reachable (refresh_balance wallet s)"
| reach_order: "reachable s \<Longrightarrow> reachable (record_order order_result smb pos now s)"
| reach_update: "reachable s \<Longrightarrow> reachable (update_open_trades positions now s)"

section \<open>Specification-side notions\<close>

text \<open>
  The body ratio of the specification (section 4.1): the body of candle \<open>i\<close>
  divided by the body of candle \<open>i - 1\<close>, signed as the bullish formula has it.
\<close>

definition body_ratio_spec :: "dataframe \<Rightarrow> nat \<Rightarrow> real" where
  "body_ratio_spec df i =
     (close_c (df ! i) - open_c (df ! i)) / (close_c (df ! (i - 1)) - open_c (df ! (i - 1)))"

text \<open>
  The order-block conditions of the specification at index \<open>i\<close>, and the
  event recorded for candle \<open>i\<close>.
\<close>

definition bullish_block_spec :: "dataframe \<Rightarrow> nat \<Rightarrow> bool" where
  "bullish_block_spec df i =
     (close_c (df ! i) > open_c (df ! i) \<and> close_c (df ! (i + 1)) < open_c (df ! (i + 1)))"

definition bearish_block_spec :: "dataframe \<Rightarrow> nat \<Rightarrow> bool" where
  "bearish_block_spec df i =
     (close_c (df ! i) < open_c (df ! i) \<and> close_c (df ! (i + 1)) > open_c (df ! (i + 1)))"

definition block_event :: "dataframe \<Rightarrow> nat \<Rightarrow> order_block" where
  "block_event df i =
     \<lparr>ob_type = (if bullish_block_spec df i then BULLISH else BEARISH),
      ob_high = high_c (df ! i), ob_low = low_c (df ! i),
      ob_time = time_c (df ! i), confirmed = False\<rparr>"

text \<open>The accumulated strength of the fusion rule (section 4.2).\<close>

definition fused_strength ::
    "order_block list \<Rightarrow> choch_point list \<Rightarrow> engulfing_pattern list \<Rightarrow> real" where
  "fused_strength obs chs engs =
     (if obs \<noteq> [] then 4 / 10 else 0) + (if chs \<noteq> [] then 3 / 10 else 0)
     + (if engs \<noteq> [] then 3 / 10 else 0)"

definition ob_direction :: "order_block \<Rightarrow> direction" where
  "ob_direction ob = (if ob_type ob = BULLISH then BUY else SELL)"

definition choch_direction :: "choch_point \<Rightarrow> direction" where
  "choch_direction ch = (if choch_type ch = BULLISH_CHOCH then BUY else SELL)"

definition engulfing_direction :: "engulfing_pattern \<Rightarrow> direction" where
  "engulfing_direction e = (if engulfing_type e = BULLISH_ENGULFING then BUY else SELL)"

text \<open>The direction by precedence: order block, then CHoCH, then engulfing.\<close>

definition fused_direction ::
    "order_block list \<Rightarrow> choch_point list \<Rightarrow> engulfing_pattern list \<Rightarrow> direction" where
  "fused_direction obs chs engs =
     (if obs \<noteq> [] then ob_direction (last obs)
      else if chs \<noteq> [] then choch_direction (last chs)
      else if engs \<noteq> [] then engulfing_direction (last engs)
      else NEUTRAL)"

text \<open>The trades behind the references of the open list, in list order.\<close>

definition open_view :: "bot_state \<Rightarrow> trade list" where
  "open_view s = map (\<lambda>r. objects s ! r) (open_trades s)"

text \<open>
  Well-formed ledgers: no reference occurs twice in a list, the references
  point into the store, open trades have status \<open>OPEN\<close> and closed ones
  \<open>CLOSED\<close>. Every reachable state is well formed (\<open>reachable_ledger_ok\<close> below).
\<close>

definition ledger_ok :: "bot_state \<Rightarrow> bool" where
  "ledger_ok s \<longleftrightarrow>
     distinct (open_trades s) \<and> distinct (closed_trades s)
     \<and> (\<forall>r \<in> set (open_trades s). r < length (objects s) \<and> status (objects s ! r) = OPEN)
     \<and> (\<forall>r \<in> set (closed_trades s). r < length (objects s) \<and> status (objects s ! r) = CLOSED)"

text \<open>
  The pnl the loop body writes into a trade, if it gets that far: the search
  found an entry and its \<^verbatim>\<open>realized_pnl\<close> could be read.
\<close>

definition pnl_read :: "exchange_position list \<Rightarrow> trade \<Rightarrow> real option" where
  "pnl_read result t =
     (case matching_pos result t of
        Inl e \<Rightarrow> None
      | Inr None \<Rightarrow> None
      | Inr (Some pos) \<Rightarrow>
          (case py_float_get (realized_pnl pos) of Inl e \<Rightarrow> None | Inr p \<Rightarrow> Some p))"

text \<open>
  The condition under which the loop body closes a trade: the pnl was written
  and the size of the matching entry reads as zero.
\<close>

definition closes :: "exchange_position list \<Rightarrow> trade \<Rightarrow> bool" where
  "closes result t =
     (case matching_pos result t of
        Inl e \<Rightarrow> False
      | Inr None \<Rightarrow> False
      | Inr (Some pos) \<Rightarrow>
          (case py_float_get (realized_pnl pos) of
             Inl e \<Rightarrow> False
           | Inr p \<Rightarrow> py_float_get (size_p pos) = Inr 0))"

text \<open>What the loop body makes of a trade object.\<close>

definition reconciled :: "exchange_position list \<Rightarrow> string \<Rightarrow> trade \<Rightarrow> trade" where
  "reconciled result now t =
     (case pnl_read result t of
        None \<Rightarrow> t
      | Some p \<Rightarrow>
          if closes result t
          then t\<lparr>pnl := p, status := CLOSED, closed_at := Some now\<rparr>
          else t\<lparr>pnl := p\<rparr>)"

section \<open>Example inputs\<close>

definition ohlc :: "int \<Rightarrow> real \<Rightarrow> real \<Rightarrow> real \<Rightarrow> real \<Rightarrow> candle" where
  "ohlc t op hi lo cl =
     \<lparr>time_c = t, open_c = op, high_c = hi, low_c = lo, close_c = cl, volume_c = 1\<rparr>"

text \<open>The two candles of the engulfing example of the specification (section 8).\<close>

definition engulfing_spec_example :: dataframe where
  "engulfing_spec_example = [ohlc 0 100 100 90 90, ohlc 1 95 102 95 102]"

text \<open>The same with the second candle opening below the first one's close.\<close>

definition engulfing_bullish_example :: dataframe where
  "engulfing_bullish_example = [ohlc 0 100 100 90 90, ohlc 1 89 102 89 102]"

text \<open>A bullish candle engulfed by a bearish one.\<close>

definition engulfing_bearish_example :: dataframe where
  "engulfing_bearish_example = [ohlc 0 100 110 100 110, ohlc 1 115 115 95 95]"

text \<open>Fifty candles without a body, all with the same range.\<close>

definition flat_candles :: dataframe where
  "flat_candles = map (\<lambda>i. ohlc (int i) 10 11 9 10) [0 ..< 50]"

text \<open>
  Then a falling candle and a rising one inside the range: a bearish order
  block at index 50, no break of the range and no engulfing.
\<close>

definition df_bearish_block :: dataframe where
  "df_bearish_block =
     flat_candles @ [ohlc 50 10 11 9 (95 / 10), ohlc 51 (96 / 10) 11 9 (98 / 10)]"

text \<open>The same with the falling candle breaking the low of the range.\<close>

definition df_bearish_block_choch :: dataframe where
  "df_bearish_block_choch =
     flat_candles @ [ohlc 50 10 11 8 9, ohlc 51 (92 / 10) 11 (85 / 10) (95 / 10)]"

text \<open>Three candles: a bullish block at index 1 for lookback 1.\<close>

definition df_small :: dataframe where
  "df_small = [ohlc 0 10 11 9 10, ohlc 1 10 12 9 11, ohlc 2 11 12 9 10]"

text \<open>A buy signal that carries an entry price, as the sizing example needs.\<close>

definition sizing_signal :: signal where
  "sizing_signal =
     \<lparr>sig_symbol = ''BTCUSD'', direction = BUY, confidence = 5 / 10,
      sig_order_blocks = [], sig_choch = None, sig_engulfing = None,
      timestamp = None, sig_entry_price = Some 20000\<rparr>"

definition example_position :: position where
  "example_position =
     \<lparr>entry_price = 10000, stop_loss = 9800, take_profit = 10400,
      position_size = 5 / 100, side = BUY, risk_amount = 100, potential_profit = 20\<rparr>"

definition example_trade :: trade where
  "example_trade =
     \<lparr>trade_id = 7, symbol = ''BTCUSD'', trade_side = BUY, trade_entry_price = 10000,
      trade_size = 5 / 100, trade_stop_loss = 9800, trade_take_profit = 10400,
      risk = 100, trade_potential_profit = 20, pnl = 0, status = OPEN,
      opened_at = ''t1'', closed_at = None\<rparr>"

text \<open>One filled order.\<close>

definition one_open :: bot_state where
  "one_open =
     record_order (Some 7) ''BTCUSD'' example_position ''t1''
       (initial_bot_state ''testnet'' ''t0'')"

text \<open>One order on each of two symbols, both filled.\<close>

definition two_open :: bot_state where
  "two_open =
     record_order (Some 8) ''ETHUSD'' example_position ''t2''
       (record_order (Some 7) ''BTCUSD'' example_position ''t1''
          (initial_bot_state ''testnet'' ''t0''))"

text \<open>
  A snapshot in which the BTCUSD position is flat with a profit; a second
  BTCUSD entry follows it, and ETHUSD is not listed.
\<close>

definition example_snapshot :: "exchange_position list" where
  "example_snapshot =
     [\<lparr>product_symbol = Symbol ''BTCUSD'', realized_pnl = Some (Numeric 5),
        size_p = Some (Numeric 0)\<rparr>,
      \<lparr>product_symbol = Symbol ''BTCUSD'', realized_pnl = Some (Numeric (- 3)),
        size_p = Some (Numeric 1)\<rparr>]"




definition after_pass :: bot_state where
  "after_pass = update_open_trades (Some example_snapshot) ''t3'' two_open"

section \<open>Engulfing strength\<close>

lemma engulfing_two: "detect_engulfing [a, b] = engulfing_at [a, b] 1"
  by (simp add: detect_engulfing_def)

lemma engulfing_at_in_detect:
  "1 \<le> i \<Longrightarrow> i < length df \<Longrightarrow> set (engulfing_at df i) \<subseteq> set (detect_engulfing df)"
  by (auto simp: detect_engulfing_def)

text \<open>
  The example of the specification does not fire: the second candle opens at 95,
  which is not below the first candle's close of 90, so no event is emitted.
\<close>

theorem engulfing_spec_example_no_event:
  "detect_engulfing engulfing_spec_example = []"
  by (simp add: engulfing_two engulfing_spec_example_def engulfing_at_def ohlc_def)

text \<open>
  C9, as the code has it. Whenever the bullish case fires at index \<open>i\<close>, the one
  event of that index carries exactly the signed ratio
  \<open>(close[i] - open[i]) / (close[i-1] - open[i-1])\<close>; its denominator is the negative
  prior body, so the ratio is negative. On the candles of the specification's
  example (previous open 100, close 90; current open 95, close 102) the detector
  emits nothing.
\<close>

theorem bullish_engulfing_strength:
  assumes "1 \<le> i" and "i < length df"
    and "close_c (df ! (i - 1)) < open_c (df ! (i - 1))"
    and "close_c (df ! i) > open_c (df ! (i - 1))"
    and "open_c (df ! i) < close_c (df ! (i - 1))"
  shows "engulfing_at df i =
           [\<lparr>engulfing_type = BULLISH_ENGULFING, engulfing_time = time_c (df ! i),
             strength = body_ratio_spec df i\<rparr>]
         \<and> set (engulfing_at df i) \<subseteq> set (detect_engulfing df)
         \<and> body_ratio_spec df i < 0
         \<and> detect_engulfing engulfing_spec_example = []"
proof -
  have ev: "engulfing_at df i =
           [\<lparr>engulfing_type = BULLISH_ENGULFING, engulfing_time = time_c (df ! i),
             strength = body_ratio_spec df i\<rparr>]"
    using assms(3-5) by (simp add: engulfing_at_def body_ratio_spec_def Let_def)
  have num: "close_c (df ! i) - open_c (df ! i) > 0" using assms(3-5) by linarith
  have den: "close_c (df ! (i - 1)) - open_c (df ! (i - 1)) < 0" using assms(3) by simp
  have neg: "body_ratio_spec df i < 0"
    unfolding body_ratio_spec_def using num den by (rule divide_pos_neg)
  have ex: "detect_engulfing engulfing_spec_example = []"
    by (simp add: engulfing_two engulfing_spec_example_def engulfing_at_def ohlc_def)
  show ?thesis using ev neg ex engulfing_at_in_detect [OF assms(1,2)] by simp
qed

text \<open>
  With the current candle opening at 89 instead, the event is emitted and its
  strength is \<open>(102 - 89) / (90 - 100) = -1.3\<close>.
\<close>

theorem bullish_engulfing_strength_witness:
  "detect_engulfing engulfing_bullish_example =
     [\<lparr>engulfing_type = BULLISH_ENGULFING, engulfing_time = 1, strength = - (13 / 10)\<rparr>]
   \<and> body_ratio_spec engulfing_bullish_example 1 = - (13 / 10)"
proof -
  have h: "(1::nat) \<le> 1" "1 < length engulfing_bullish_example"
     "close_c (engulfing_bullish_example ! (1 - 1)) < open_c (engulfing_bullish_example ! (1 - 1))"
     "close_c (engulfing_bullish_example ! 1) > open_c (engulfing_bullish_example ! (1 - 1))"
     "open_c (engulfing_bullish_example ! 1) < close_c (engulfing_bullish_example ! (1 - 1))"
    by (simp_all add: engulfing_bullish_example_def ohlc_def)
  have r: "body_ratio_spec engulfing_bullish_example 1 = - (13 / 10)"
    by (simp add: body_ratio_spec_def engulfing_bullish_example_def ohlc_def)
  have t: "time_c (engulfing_bullish_example ! 1) = 1"
    by (simp add: engulfing_bullish_example_def ohlc_def)
  have d: "detect_engulfing engulfing_bullish_example = engulfing_at engulfing_bullish_example 1"
    by (simp add: engulfing_bullish_example_def engulfing_two)
  show ?thesis using bullish_engulfing_strength [OF h] r t d by simp
qed

text \<open>
  C5. The bearish case does not emit the body ratio: its denominator is
  \<open>curr_open - prev_open\<close>, not the previous candle's body. For a previous candle
  100 \<rightarrow> 110 and a current candle 115 \<rightarrow> 95 the emitted strength is
  \<open>20 / 15 = 4 / 3\<close>, while the ratio of the two bodies is 2 in magnitude.
\<close>

theorem bearish_engulfing_strength_example:
  "detect_engulfing engulfing_bearish_example =
     [\<lparr>engulfing_type = BEARISH_ENGULFING, engulfing_time = 1, strength = 4 / 3\<rparr>]
   \<and> body_ratio_spec engulfing_bearish_example 1 = - 2
   \<and> \<bar>4 / 3 :: real\<bar> \<noteq> \<bar>- 2\<bar>"
  by (simp add: engulfing_two engulfing_bearish_example_def engulfing_at_def ohlc_def
      body_ratio_spec_def)

section \<open>Position sizing\<close>

text \<open>
  The example of the specification at the code: the take profit is
  \<open>20000 * (1 + 2 * 0.02) = 20800\<close>, not 21600, and the potential profit is
  \<open>0.025 * 800 = 20\<close>, not 40.
\<close>

theorem calculate_position_spec_example_differs:
  "calculate_position RISK_PARAMS (Some sizing_signal) 10000 =
     Inr (Some \<lparr>entry_price = 20000, stop_loss = 19600, take_profit = 20800,
                position_size = 25 / 1000, side = BUY, risk_amount = 100,
                potential_profit = 20\<rparr>)
   \<and> (20800 :: real) \<noteq> 21600 \<and> (20 :: real) \<noteq> 40"
  by (simp add: calculate_position_def RISK_PARAMS_def sizing_signal_def Let_def)

text \<open>
  C1, as the code has it. With balance 10000, risk per trade 0.01, maximal
  position size 0.05, reward to risk 2, a buy signal of confidence at least 0.5
  and entry price 20000, the plan has risk amount 100, stop loss 19600, position
  size 0.025 (the smaller of 0.25 and 0.025), take profit 20800 and potential
  profit 20.
\<close>

theorem calculate_position_example:
  assumes "direction sg = BUY" and "confidence sg \<ge> 5 / 10"
    and "sig_entry_price sg = Some 20000"
    and "max_risk_per_trade rp = 1 / 100" and "max_position_size rp = 5 / 100"
    and "reward_risk_ratio rp = 2"
  shows "calculate_position rp (Some sg) 10000 =
     Inr (Some \<lparr>entry_price = 20000, stop_loss = 19600, take_profit = 20800,
                position_size = 25 / 1000, side = BUY, risk_amount = 100,
                potential_profit = 20\<rparr>)"
  using assms by (simp add: calculate_position_def Let_def)

theorem calculate_position_example_witness:
  "calculate_position RISK_PARAMS (Some sizing_signal) 10000 =
     Inr (Some \<lparr>entry_price = 20000, stop_loss = 19600, take_profit = 20800,
                position_size = 25 / 1000, side = BUY, risk_amount = 100,
                potential_profit = 20\<rparr>)"
proof -
  have h: "direction sizing_signal = BUY" "confidence sizing_signal \<ge> 5 / 10"
    "sig_entry_price sizing_signal = Some 20000"
    "max_risk_per_trade RISK_PARAMS = 1 / 100" "max_position_size RISK_PARAMS = 5 / 100"
    "reward_risk_ratio RISK_PARAMS = 2"
    by (simp_all add: sizing_signal_def RISK_PARAMS_def)
  show ?thesis by (rule calculate_position_example [OF h])
qed

section \<open>Signal fusion\<close>

lemma fuse_eq:
  "engulfing_vote engs (choch_vote chs (order_block_vote obs (0, NEUTRAL)))
     = (fused_strength obs chs engs, fused_direction obs chs engs)"
  by (simp add: engulfing_vote_def choch_vote_def order_block_vote_def fused_strength_def
      fused_direction_def ob_direction_def choch_direction_def engulfing_direction_def)

lemma generate_signal_eq:
  "generate_signal df symb =
     (let obs = detect_order_blocks df 50; chs = detect_choch df; engs = detect_engulfing df
      in if fused_strength obs chs engs \<ge> 5 / 10 then
           Some \<lparr>sig_symbol = symb, direction = fused_direction obs chs engs,
                 confidence = min (fused_strength obs chs engs) 1,
                 sig_order_blocks = drop (length obs - 3) obs,
                 sig_choch = last_opt chs, sig_engulfing = last_opt engs,
                 timestamp = (if length df > 0 then Some (time_c (last df)) else None),
                 sig_entry_price = None\<rparr>
         else None)"
  by (simp add: generate_signal_def fuse_eq Let_def)

text \<open>The detectors on the example frames.\<close>

lemma ob_bearish_block: "detect_order_blocks df_bearish_block 50 =
   [\<lparr>ob_type = BEARISH, ob_high = 11, ob_low = 9, ob_time = 50, confirmed = False\<rparr>]"
  by code_simp

lemma ch_bearish_block: "detect_choch df_bearish_block = []"
  by code_simp

lemma eng_bearish_block: "detect_engulfing df_bearish_block = []"
  by code_simp

lemma ob_bearish_block_choch: "detect_order_blocks df_bearish_block_choch 50 =
   [\<lparr>ob_type = BEARISH, ob_high = 11, ob_low = 8, ob_time = 50, confirmed = False\<rparr>]"
  by code_simp

lemma ch_bearish_block_choch: "detect_choch df_bearish_block_choch =
   [\<lparr>choch_type = BEARISH_CHOCH, price = 8, choch_time = 50\<rparr>]"
  by code_simp

lemma eng_bearish_block_choch: "detect_engulfing df_bearish_block_choch = []"
  by code_simp

lemma signal_bearish_block_choch:
  "generate_signal df_bearish_block_choch ''BTCUSD'' =
     Some \<lparr>sig_symbol = ''BTCUSD'', direction = SELL, confidence = 7 / 10,
       sig_order_blocks = [\<lparr>ob_type = BEARISH, ob_high = 11, ob_low = 8, ob_time = 50, confirmed = False\<rparr>],
       sig_choch = Some \<lparr>choch_type = BEARISH_CHOCH, price = 8, choch_time = 50\<rparr>,
       sig_engulfing = None, timestamp = Some 51, sig_entry_price = None\<rparr>"
  by code_simp

text \<open>
  C6. \<^verbatim>\<open>generate_signal\<close> returns a signal exactly when the accumulated strength
  (0.4 for an order block, 0.3 for a CHoCH, 0.3 for an engulfing pattern) is at
  least 0.5; the confidence of an emitted signal is the smaller of the strength
  and 1, hence between 0.5 and 1. With a bearish order block alone the strength
  is 0.4 and nothing is emitted.
\<close>

theorem generate_signal_threshold:
  "(generate_signal df symb \<noteq> None \<longleftrightarrow>
      fused_strength (detect_order_blocks df 50) (detect_choch df) (detect_engulfing df) \<ge> 5 / 10)
   \<and> (\<forall>sg. generate_signal df symb = Some sg \<longrightarrow>
         confidence sg
           = min (fused_strength (detect_order_blocks df 50) (detect_choch df) (detect_engulfing df)) 1
         \<and> 5 / 10 \<le> confidence sg \<and> confidence sg \<le> 1)
   \<and> (detect_order_blocks df 50 \<noteq> [] \<and> ob_type (last (detect_order_blocks df 50)) = BEARISH
        \<and> detect_choch df = [] \<and> detect_engulfing df = []
       \<longrightarrow> fused_strength (detect_order_blocks df 50) (detect_choch df) (detect_engulfing df) = 4 / 10
           \<and> generate_signal df symb = None)"
proof -
  let ?st = "fused_strength (detect_order_blocks df 50) (detect_choch df) (detect_engulfing df)"
  have a: "generate_signal df symb \<noteq> None \<longleftrightarrow> ?st \<ge> 5 / 10"
    by (simp add: generate_signal_eq Let_def)
  have b: "\<forall>sg. generate_signal df symb = Some sg \<longrightarrow>
         confidence sg = min ?st 1 \<and> 5 / 10 \<le> confidence sg \<and> confidence sg \<le> 1"
    by (auto simp: generate_signal_eq Let_def split: if_splits)
  have c: "detect_order_blocks df 50 \<noteq> [] \<and> ob_type (last (detect_order_blocks df 50)) = BEARISH
        \<and> detect_choch df = [] \<and> detect_engulfing df = []
       \<longrightarrow> ?st = 4 / 10 \<and> generate_signal df symb = None"
    by (simp add: generate_signal_eq Let_def fused_strength_def)
  show ?thesis using a b c by blast
qed

theorem generate_signal_threshold_witness:
  "generate_signal df_bearish_block ''BTCUSD'' = None
   \<and> fused_strength (detect_order_blocks df_bearish_block 50) (detect_choch df_bearish_block)
        (detect_engulfing df_bearish_block) = 4 / 10
   \<and> confidence (the (generate_signal df_bearish_block_choch ''BTCUSD'')) = 7 / 10"
proof -
  have n: "generate_signal df_bearish_block ''BTCUSD'' = None
    \<and> fused_strength (detect_order_blocks df_bearish_block 50) (detect_choch df_bearish_block)
        (detect_engulfing df_bearish_block) = 4 / 10"
    using generate_signal_threshold [of df_bearish_block "''BTCUSD''"]
    by (simp add: ob_bearish_block ch_bearish_block eng_bearish_block)
  have s: "confidence (the (generate_signal df_bearish_block_choch ''BTCUSD'')) = 7 / 10"
    using generate_signal_threshold [of df_bearish_block_choch "''BTCUSD''"]
    by (simp add: signal_bearish_block_choch)
  show ?thesis using n s by simp
qed

text \<open>
  C7. The order-block block sets the direction whatever it was; the CHoCH and
  the engulfing blocks set it only while it is \<open>NEUTRAL\<close>. So the direction of
  an emitted signal follows the precedence order block, CHoCH, engulfing. A
  bearish order block with a bearish CHoCH (and no engulfing pattern) gives
  strength 0.7 and a signal with direction \<open>SELL\<close> and confidence 0.7.
\<close>

theorem fusion_direction_precedence:
  "(obs \<noteq> [] \<longrightarrow> snd (order_block_vote obs (st, d)) = ob_direction (last obs))
   \<and> (chs \<noteq> [] \<longrightarrow> snd (choch_vote chs (st, d))
          = (if d = NEUTRAL then choch_direction (last chs) else d))
   \<and> (engs \<noteq> [] \<longrightarrow> snd (engulfing_vote engs (st, d))
          = (if d = NEUTRAL then engulfing_direction (last engs) else d))
   \<and> (\<forall>sg. generate_signal df symb = Some sg \<longrightarrow>
         direction sg
           = fused_direction (detect_order_blocks df 50) (detect_choch df) (detect_engulfing df))
   \<and> (detect_order_blocks df 50 \<noteq> [] \<and> ob_type (last (detect_order_blocks df 50)) = BEARISH
        \<and> detect_choch df \<noteq> [] \<and> choch_type (last (detect_choch df)) = BEARISH_CHOCH
        \<and> detect_engulfing df = []
       \<longrightarrow> fused_strength (detect_order_blocks df 50) (detect_choch df) (detect_engulfing df) = 7 / 10
           \<and> (\<exists>sg. generate_signal df symb = Some sg \<and> direction sg = SELL
                  \<and> confidence sg = 7 / 10))"
proof -
  have a: "obs \<noteq> [] \<longrightarrow> snd (order_block_vote obs (st, d)) = ob_direction (last obs)"
    by (simp add: order_block_vote_def ob_direction_def)
  have b: "chs \<noteq> [] \<longrightarrow> snd (choch_vote chs (st, d))
          = (if d = NEUTRAL then choch_direction (last chs) else d)"
    by (simp add: choch_vote_def choch_direction_def)
  have c: "engs \<noteq> [] \<longrightarrow> snd (engulfing_vote engs (st, d))
          = (if d = NEUTRAL then engulfing_direction (last engs) else d)"
    by (simp add: engulfing_vote_def engulfing_direction_def)
  have e: "\<forall>sg. generate_signal df symb = Some sg \<longrightarrow>
         direction sg
           = fused_direction (detect_order_blocks df 50) (detect_choch df) (detect_engulfing df)"
    by (auto simp: generate_signal_eq Let_def split: if_splits)
  have f: "detect_order_blocks df 50 \<noteq> [] \<and> ob_type (last (detect_order_blocks df 50)) = BEARISH
        \<and> detect_choch df \<noteq> [] \<and> choch_type (last (detect_choch df)) = BEARISH_CHOCH
        \<and> detect_engulfing df = []
       \<longrightarrow> fused_strength (detect_order_blocks df 50) (detect_choch df) (detect_engulfing df) = 7 / 10
           \<and> (\<exists>sg. generate_signal df symb = Some sg \<and> direction sg = SELL
                  \<and> confidence sg = 7 / 10)"
    by (simp add: generate_signal_eq Let_def fused_strength_def fused_direction_def
        ob_direction_def)
  show ?thesis using a b c e f by blast
qed

theorem fusion_direction_precedence_witness:
  "fused_strength (detect_order_blocks df_bearish_block_choch 50)
      (detect_choch df_bearish_block_choch) (detect_engulfing df_bearish_block_choch) = 7 / 10
   \<and> direction (the (generate_signal df_bearish_block_choch ''BTCUSD'')) = SELL
   \<and> confidence (the (generate_signal df_bearish_block_choch ''BTCUSD'')) = 7 / 10"
  using fusion_direction_precedence [of "[]" 0 NEUTRAL "[]" "[]" df_bearish_block_choch "''BTCUSD''"]
  by (simp add: ob_bearish_block_choch ch_bearish_block_choch eng_bearish_block_choch
      signal_bearish_block_choch)

lemma fused_direction_not_neutral:
  "fused_strength obs chs engs \<ge> 5 / 10 \<Longrightarrow>
     fused_direction obs chs engs = BUY \<or> fused_direction obs chs engs = SELL"
  by (simp add: fused_strength_def fused_direction_def ob_direction_def choch_direction_def
      split: if_splits)

text \<open>
  C3. A signal emitted by \<^verbatim>\<open>generate_signal\<close> has no entry price, and
  \<^verbatim>\<open>calculate_position\<close> sizes it, for every balance and every risk parameters,
  on the fallback price 10000: the entry price of the plan is 10000, the stop
  loss is 9800 for a buy and 10200 for a sell, the take profit is 10000 scaled
  by the reward to risk ratio, the stop distance is 200, so the size is the
  smaller of \<open>risk_amount / 200\<close> and \<open>balance * max_position_size / 10000\<close>, and
  the potential profit is the size times the distance of the take profit from
  10000. No input of \<^verbatim>\<open>generate_signal\<close> changes any of these prices.
\<close>

theorem generate_signal_no_entry_price:
  assumes "generate_signal df symb = Some sg"
  shows "sig_entry_price sg = None
    \<and> (direction sg = BUY \<or> direction sg = SELL)
    \<and> calculate_position rp (Some sg) bal =
        Inr (Some
          \<lparr>entry_price = 10000,
           stop_loss = (if direction sg = BUY then 9800 else 10200),
           take_profit =
             (if direction sg = BUY then 10000 * (1 + reward_risk_ratio rp * (2 / 100))
              else 10000 * (1 - reward_risk_ratio rp * (2 / 100))),
           position_size =
             min (bal * max_risk_per_trade rp / 200) (bal * max_position_size rp / 10000),
           side = direction sg,
           risk_amount = bal * max_risk_per_trade rp,
           potential_profit =
             min (bal * max_risk_per_trade rp / 200) (bal * max_position_size rp / 10000)
             * \<bar>(if direction sg = BUY then 10000 * (1 + reward_risk_ratio rp * (2 / 100))
                 else 10000 * (1 - reward_risk_ratio rp * (2 / 100))) - 10000\<bar>\<rparr>)"
proof -
  have e: "sig_entry_price sg = None" and c: "\<not> confidence sg < 5 / 10"
    using assms by (auto simp: generate_signal_eq Let_def split: if_splits)
  have ge: "fused_strength (detect_order_blocks df 50) (detect_choch df) (detect_engulfing df)
      \<ge> 5 / 10"
    and dir: "direction sg
      = fused_direction (detect_order_blocks df 50) (detect_choch df) (detect_engulfing df)"
    using assms by (auto simp: generate_signal_eq Let_def split: if_splits)
  have d: "direction sg = BUY \<or> direction sg = SELL"
    unfolding dir by (rule fused_direction_not_neutral [OF ge])
  have p: "calculate_position rp (Some sg) bal =
        Inr (Some
          \<lparr>entry_price = 10000,
           stop_loss = (if direction sg = BUY then 9800 else 10200),
           take_profit =
             (if direction sg = BUY then 10000 * (1 + reward_risk_ratio rp * (2 / 100))
              else 10000 * (1 - reward_risk_ratio rp * (2 / 100))),
           position_size =
             min (bal * max_risk_per_trade rp / 200) (bal * max_position_size rp / 10000),
           side = direction sg,
           risk_amount = bal * max_risk_per_trade rp,
           potential_profit =
             min (bal * max_risk_per_trade rp / 200) (bal * max_position_size rp / 10000)
             * \<bar>(if direction sg = BUY then 10000 * (1 + reward_risk_ratio rp * (2 / 100))
                 else 10000 * (1 - reward_risk_ratio rp * (2 / 100))) - 10000\<bar>\<rparr>)"
    using e c by (simp add: calculate_position_def Let_def)
  show ?thesis using e d p by blast
qed

text \<open>
  The sell signal of the example frame with balance 2500: stop loss 10200, take
  profit 9600, size \<open>min 0.125 0.0125\<close>, risk 25, potential profit 5.
\<close>

theorem generate_signal_no_entry_price_witness:
  "sig_entry_price (the (generate_signal df_bearish_block_choch ''BTCUSD'')) = None
   \<and> calculate_position RISK_PARAMS (generate_signal df_bearish_block_choch ''BTCUSD'') 2500
       = Inr (Some \<lparr>entry_price = 10000, stop_loss = 10200, take_profit = 9600,
                  position_size = 125 / 10000, side = SELL, risk_amount = 25,
                  potential_profit = 5\<rparr>)"
  using generate_signal_no_entry_price [OF signal_bearish_block_choch, of RISK_PARAMS 2500]
  by (simp add: signal_bearish_block_choch RISK_PARAMS_def)

section \<open>Order blocks\<close>

lemma concat_map_filter:
  "(\<And>x. x \<in> set xs \<Longrightarrow> f x = (if P x then [g x] else [])) \<Longrightarrow>
     concat (map f xs) = map g (filter P xs)"
  by (induction xs) simp_all

lemma order_blocks_at_inner:
  "i + 1 < length df \<Longrightarrow>
     order_blocks_at df i =
       (if bullish_block_spec df i \<or> bearish_block_spec df i then [block_event df i] else [])"
  by (auto simp: order_blocks_at_def bullish_block_spec_def bearish_block_spec_def
      block_event_def)

lemma order_blocks_at_last: "\<not> i + 1 < length df \<Longrightarrow> order_blocks_at df i = []"
  by (simp add: order_blocks_at_def)

lemma upt_split_last:
  "lookback < n \<Longrightarrow> [lookback ..< n] = [lookback ..< n - 1] @ [n - 1]"
  by (cases n) simp_all

text \<open>
  C8. The detector returns, in index order, one event for each index \<open>i\<close> from
  \<open>lookback\<close> up to but excluding \<open>L - 1\<close> at which the bullish or the bearish
  condition (on candles \<open>i\<close> and \<open>i + 1\<close>) holds: a bullish event for the
  first, a bearish one for the second, never both. The last index \<open>L - 1\<close>
  yields no event, so every event belongs to an index below \<open>L - 1\<close>. The
  detector is a function of the frame and the lookback alone, so two calls on
  the same input agree.
\<close>

theorem detect_order_blocks_spec:
  "detect_order_blocks df lookback =
     map (block_event df)
       (filter (\<lambda>i. bullish_block_spec df i \<or> bearish_block_spec df i)
          [lookback ..< length df - 1])
   \<and> order_blocks_at df (length df - 1) = []
   \<and> \<not> (bullish_block_spec df i \<and> bearish_block_spec df i)"
proof -
  let ?P = "\<lambda>i. bullish_block_spec df i \<or> bearish_block_spec df i"
  have inner: "concat (map (order_blocks_at df) [lookback ..< length df - 1])
      = map (block_event df) (filter ?P [lookback ..< length df - 1])"
  proof (rule concat_map_filter)
    fix x assume "x \<in> set [lookback ..< length df - 1]"
    then have "x + 1 < length df" by auto
    then show "order_blocks_at df x = (if ?P x then [block_event df x] else [])"
      by (rule order_blocks_at_inner)
  qed
  have last: "order_blocks_at df (length df - 1) = []"
    by (rule order_blocks_at_last) simp
  have excl: "\<not> (bullish_block_spec df i \<and> bearish_block_spec df i)"
    by (auto simp: bullish_block_spec_def bearish_block_spec_def)
  have main: "detect_order_blocks df lookback
      = map (block_event df) (filter ?P [lookback ..< length df - 1])"
  proof (cases "lookback < length df")
    case True
    have "detect_order_blocks df lookback
        = concat (map (order_blocks_at df) ([lookback ..< length df - 1] @ [length df - 1]))"
      unfolding detect_order_blocks_def by (subst upt_split_last [OF True]) (rule refl)
    also have "\<dots> = concat (map (order_blocks_at df) [lookback ..< length df - 1])
        @ order_blocks_at df (length df - 1)"
      by simp
    also have "\<dots> = map (block_event df) (filter ?P [lookback ..< length df - 1])"
      unfolding inner last by simp
    finally show ?thesis .
  next
    case False
    then show ?thesis by (simp add: detect_order_blocks_def)
  qed
  show ?thesis using main last excl by simp
qed

theorem detect_order_blocks_spec_witness:
  "detect_order_blocks df_small 1 =
     [\<lparr>ob_type = BULLISH, ob_high = 12, ob_low = 9, ob_time = 1, confirmed = False\<rparr>]"
proof -
  have f: "filter (\<lambda>i. bullish_block_spec df_small i \<or> bearish_block_spec df_small i)
             [Suc 0 ..< length df_small - Suc 0] = [Suc 0]"
    by (simp add: df_small_def ohlc_def bullish_block_spec_def upt_rec)
  have e: "block_event df_small (Suc 0) =
     \<lparr>ob_type = BULLISH, ob_high = 12, ob_low = 9, ob_time = 1, confirmed = False\<rparr>"
    by (simp add: df_small_def ohlc_def bullish_block_spec_def block_event_def)
  show ?thesis using detect_order_blocks_spec [of df_small 1 1] by (simp add: f e)
qed

section \<open>Status\<close>

lemma update_trade_counts:
  "0 \<le> win_count s \<Longrightarrow> 0 \<le> loss_count s \<Longrightarrow>
     0 \<le> win_count (update_trade result now r s) \<and> 0 \<le> loss_count (update_trade result now r s)"
  by (simp add: update_trade_def Let_def split: option.splits sum.splits)

lemma fold_update_trade_counts:
  "0 \<le> win_count s \<Longrightarrow> 0 \<le> loss_count s \<Longrightarrow>
     0 \<le> win_count (fold (update_trade result now) rs s)
     \<and> 0 \<le> loss_count (fold (update_trade result now) rs s)"
  by (induction rs arbitrary: s) (simp_all add: update_trade_counts)

lemma reachable_counts: "reachable s \<Longrightarrow> 0 \<le> win_count s \<and> 0 \<le> loss_count s"
proof (induction rule: reachable.induct)
  case (reach_update s positions now)
  then show ?case
    by (cases positions) (simp_all add: update_open_trades_def fold_update_trade_counts)
qed (simp_all add: initial_bot_state_def start_bot_def stop_bot_def switch_environment_def
      refresh_balance_def record_order_def open_trades_append_def split: option.splits)

text \<open>
  C10. In every reachable state \<^verbatim>\<open>get_status\<close> returns a report (no division by
  zero); its win rate is 0 when no trade was closed, and the wins divided by the
  closed trades otherwise.
\<close>

theorem get_status_win_rate:
  assumes "reachable s"
  shows "\<exists>st. get_status now s = Inr st
           \<and> total_trades st = win_count s + loss_count s
           \<and> win_rate st =
               (if win_count s + loss_count s = 0 then 0
                else real_of_int (win_count s) / real_of_int (win_count s + loss_count s))"
proof -
  have "0 \<le> win_count s" "0 \<le> loss_count s" using reachable_counts [OF assms] by simp_all
  then show ?thesis by (auto simp: get_status_def truediv_def Let_def)
qed

lemma reachable_two_open: "reachable two_open"
  unfolding two_open_def by (intro reachable.intros)

lemma reachable_after_pass: "reachable after_pass"
  unfolding after_pass_def by (intro reachable.intros reachable_two_open)

lemma after_pass_counts: "win_count after_pass = 1 \<and> loss_count after_pass = 0"
  by (simp add: after_pass_def two_open_def update_open_trades_def update_trade_def
      record_order_def open_trades_append_def initial_bot_state_def example_snapshot_def
      py_float_get_def Let_def example_position_def)

theorem get_status_win_rate_witness:
  "\<exists>st. get_status ''t4'' after_pass = Inr st \<and> total_trades st = 1 \<and> win_rate st = 1"
  using get_status_win_rate [OF reachable_after_pass, of "''t4''"]
  by (simp add: after_pass_counts)

section \<open>Trade ledger and reconciliation\<close>

lemma list_remove_own:
  "r \<in> set xs \<Longrightarrow> (\<forall>x \<in> set xs. x \<noteq> r \<longrightarrow> objs ! x \<noteq> objs ! r) \<Longrightarrow>
     list_remove objs xs r = Some (remove1 r xs)"
  by (induction xs) auto

lemma matching_pos_symbol:
  "symbol t = symbol t' \<Longrightarrow> matching_pos result t = matching_pos result t'"
  by (induction result) (simp_all split: symbol_field.splits)

lemma symbol_reconciled [simp]: "symbol (reconciled result now t) = symbol t"
  by (simp add: reconciled_def split: option.splits)

lemma matching_pos_reconciled [simp]:
  "matching_pos result (reconciled result' now t) = matching_pos result t"
  by (rule matching_pos_symbol) simp

lemma closes_reconciled [simp]: "closes result (reconciled result' now t) = closes result t"
  by (simp add: closes_def)

lemma closes_pnl_read: "closes result t \<Longrightarrow> \<exists>p. pnl_read result t = Some p"
  by (auto simp: closes_def pnl_read_def split: sum.splits option.splits)

lemma status_reconciled:
  "status t = OPEN \<Longrightarrow>
     status (reconciled result now t) = (if closes result t then CLOSED else OPEN)"
  using closes_pnl_read [of result t] by (auto simp: reconciled_def split: option.splits)

text \<open>The loop body in terms of \<open>pnl_read\<close> and \<open>closes\<close>.\<close>

lemma update_trade_cases:
  "update_trade result now tr s =
     (case pnl_read result (objects s ! tr) of
        None \<Rightarrow> s
      | Some p \<Rightarrow>
          (let s1 = s\<lparr>objects := (objects s)[tr := (objects s ! tr)\<lparr>pnl := p\<rparr>]\<rparr>
           in if closes result (objects s ! tr) then
                (let s2 = s1\<lparr>objects := (objects s1)
                            [tr := (objects s1 ! tr)\<lparr>status := CLOSED, closed_at := Some now\<rparr>]\<rparr>
                 in case list_remove (objects s2) (open_trades s2) tr of
                      None \<Rightarrow> s2
                    | Some rest \<Rightarrow>
                        (let s3 = s2\<lparr>open_trades := rest,
                                     closed_trades := closed_trades s2 @ [tr],
                                     total_pnl := total_pnl s2 + pnl (objects s2 ! tr)\<rparr>
                         in if pnl (objects s3 ! tr) > 0
                            then s3\<lparr>win_count := win_count s3 + 1\<rparr>
                            else s3\<lparr>loss_count := loss_count s3 + 1\<rparr>))
              else s1))"
  by (simp add: update_trade_def pnl_read_def closes_def Let_def
      split: sum.splits option.splits)

text \<open>One step of the loop in a well-formed ledger, field by field.\<close>

lemma update_trade_step:
  assumes ok: "ledger_ok s" and r: "r \<in> set (open_trades s)"
  shows "update_trade result now r s =
     (let t' = reconciled result now (objects s ! r);
          s1 = s\<lparr>objects := (objects s)[r := t']\<rparr>
      in if closes result (objects s ! r)
         then (let s3 = s1\<lparr>open_trades := remove1 r (open_trades s),
                          closed_trades := closed_trades s @ [r],
                          total_pnl := total_pnl s + pnl t'\<rparr>
               in if pnl t' > 0 then s3\<lparr>win_count := win_count s + 1\<rparr>
                  else s3\<lparr>loss_count := loss_count s + 1\<rparr>)
         else s1)"
proof (cases "pnl_read result (objects s ! r)")
  case None
  then have "\<not> closes result (objects s ! r)"
    using closes_pnl_read [of result "objects s ! r"] by auto
  with None show ?thesis
    by (simp add: update_trade_cases reconciled_def)
next
  case (Some p)
  from ok r have len: "r < length (objects s)" and st: "status (objects s ! r) = OPEN"
    by (auto simp: ledger_ok_def)
  show ?thesis
  proof (cases "closes result (objects s ! r)")
    case False
    with Some show ?thesis
      by (simp add: update_trade_cases reconciled_def Let_def)
  next
    case True
    let ?t' = "(objects s ! r)\<lparr>pnl := p, status := CLOSED, closed_at := Some now\<rparr>"
    let ?objs = "(objects s)[r := ?t']"
    have other: "\<forall>x \<in> set (open_trades s). x \<noteq> r \<longrightarrow> ?objs ! x \<noteq> ?objs ! r"
    proof (intro ballI impI)
      fix x assume x: "x \<in> set (open_trades s)" and ne: "x \<noteq> r"
      from ok x have "status (objects s ! x) = OPEN" by (auto simp: ledger_ok_def)
      then have "status (?objs ! x) = OPEN" using ne by simp
      moreover have "status (?objs ! r) = CLOSED" using len by simp
      ultimately show "?objs ! x \<noteq> ?objs ! r" by auto
    qed
    have rem: "list_remove ?objs (open_trades s) r = Some (remove1 r (open_trades s))"
      by (rule list_remove_own [OF r other])
    have t': "reconciled result now (objects s ! r) = ?t'"
      using Some True by (simp add: reconciled_def)
    show ?thesis
      unfolding t' using Some True rem len
      by (simp add: update_trade_cases Let_def)
  qed
qed

lemma update_trade_fields:
  assumes ok: "ledger_ok s" and r: "r \<in> set (open_trades s)"
  shows "objects (update_trade result now r s)
           = (objects s)[r := reconciled result now (objects s ! r)]"
    and "open_trades (update_trade result now r s)
           = (if closes result (objects s ! r) then remove1 r (open_trades s)
              else open_trades s)"
    and "closed_trades (update_trade result now r s)
           = (if closes result (objects s ! r) then closed_trades s @ [r]
              else closed_trades s)"
    and "total_pnl (update_trade result now r s)
           = (if closes result (objects s ! r)
              then total_pnl s + pnl (reconciled result now (objects s ! r))
              else total_pnl s)"
    and "win_count (update_trade result now r s)
           = (if closes result (objects s ! r) \<and> pnl (reconciled result now (objects s ! r)) > 0
              then win_count s + 1 else win_count s)"
    and "loss_count (update_trade result now r s)
           = (if closes result (objects s ! r) \<and> \<not> pnl (reconciled result now (objects s ! r)) > 0
              then loss_count s + 1 else loss_count s)"
  by (simp_all add: update_trade_step [OF ok r] Let_def)

lemma update_trade_ok:
  assumes ok: "ledger_ok s" and r: "r \<in> set (open_trades s)"
  shows "ledger_ok (update_trade result now r s)"
proof -
  note f = update_trade_fields [OF ok r, of result now]
  from ok r have len: "r < length (objects s)" and st: "status (objects s ! r) = OPEN"
    by (auto simp: ledger_ok_def)
  have notcl: "r \<notin> set (closed_trades s)" using ok st by (auto simp: ledger_ok_def)
  have str: "status (reconciled result now (objects s ! r))
      = (if closes result (objects s ! r) then CLOSED else OPEN)"
    by (rule status_reconciled [OF st])
  show ?thesis
  proof (cases "closes result (objects s ! r)")
    case True
    have d1: "distinct (remove1 r (open_trades s))" using ok by (simp add: ledger_ok_def)
    have d2: "distinct (closed_trades s @ [r])" using ok notcl by (simp add: ledger_ok_def)
    have o: "\<forall>x \<in> set (remove1 r (open_trades s)).
        x < length ((objects s)[r := reconciled result now (objects s ! r)])
        \<and> status ((objects s)[r := reconciled result now (objects s ! r)] ! x) = OPEN"
    proof
      fix x assume x: "x \<in> set (remove1 r (open_trades s))"
      have "distinct (open_trades s)" using ok by (simp add: ledger_ok_def)
      with x have "x \<in> set (open_trades s)" "x \<noteq> r" by auto
      with ok show "x < length ((objects s)[r := reconciled result now (objects s ! r)])
        \<and> status ((objects s)[r := reconciled result now (objects s ! r)] ! x) = OPEN"
        by (auto simp: ledger_ok_def)
    qed
    have c: "\<forall>x \<in> set (closed_trades s @ [r]).
        x < length ((objects s)[r := reconciled result now (objects s ! r)])
        \<and> status ((objects s)[r := reconciled result now (objects s ! r)] ! x) = CLOSED"
    proof
      fix x assume x: "x \<in> set (closed_trades s @ [r])"
      show "x < length ((objects s)[r := reconciled result now (objects s ! r)])
        \<and> status ((objects s)[r := reconciled result now (objects s ! r)] ! x) = CLOSED"
      proof (cases "x = r")
        case True
        then show ?thesis using len str \<open>closes result (objects s ! r)\<close> by simp
      next
        case False
        with x have "x \<in> set (closed_trades s)" by simp
        with ok False show ?thesis by (auto simp: ledger_ok_def)
      qed
    qed
    show ?thesis unfolding ledger_ok_def f using True d1 d2 o c len str by simp
  next
    case False
    have o: "\<forall>x \<in> set (open_trades s).
        x < length ((objects s)[r := reconciled result now (objects s ! r)])
        \<and> status ((objects s)[r := reconciled result now (objects s ! r)] ! x) = OPEN"
    proof
      fix x assume x: "x \<in> set (open_trades s)"
      show "x < length ((objects s)[r := reconciled result now (objects s ! r)])
        \<and> status ((objects s)[r := reconciled result now (objects s ! r)] ! x) = OPEN"
      proof (cases "x = r")
        case True
        then show ?thesis using len str False by simp
      next
        case ne: False
        with ok x show ?thesis by (auto simp: ledger_ok_def)
      qed
    qed
    have c: "\<forall>x \<in> set (closed_trades s).
        x < length ((objects s)[r := reconciled result now (objects s ! r)])
        \<and> status ((objects s)[r := reconciled result now (objects s ! r)] ! x) = CLOSED"
    proof
      fix x assume x: "x \<in> set (closed_trades s)"
      with notcl have "x \<noteq> r" by auto
      with ok x show "x < length ((objects s)[r := reconciled result now (objects s ! r)])
        \<and> status ((objects s)[r := reconciled result now (objects s ! r)] ! x) = CLOSED"
        by (auto simp: ledger_ok_def)
    qed
    show ?thesis unfolding ledger_ok_def f using False ok o c len str by (simp add: ledger_ok_def)
  qed
qed


text \<open>
  The loop over a list \<open>rs\<close> of distinct references into the open list of a
  well-formed ledger.
\<close>

lemma fold_update_trade:
  assumes "ledger_ok s" and "set rs \<subseteq> set (open_trades s)" and "distinct rs"
  shows "ledger_ok (fold (update_trade result now) rs s)
    \<and> length (objects (fold (update_trade result now) rs s)) = length (objects s)
    \<and> (\<forall>i. objects (fold (update_trade result now) rs s) ! i
          = (if i \<in> set rs then reconciled result now (objects s ! i) else objects s ! i))
    \<and> open_trades (fold (update_trade result now) rs s)
        = filter (\<lambda>x. \<not> (x \<in> set rs \<and> closes result (objects s ! x))) (open_trades s)
    \<and> closed_trades (fold (update_trade result now) rs s)
        = closed_trades s @ filter (\<lambda>x. closes result (objects s ! x)) rs
    \<and> total_pnl (fold (update_trade result now) rs s)
        = total_pnl s + sum_list (map (\<lambda>x. pnl (reconciled result now (objects s ! x)))
                           (filter (\<lambda>x. closes result (objects s ! x)) rs))
    \<and> win_count (fold (update_trade result now) rs s)
        = win_count s + int (length (filter (\<lambda>x. closes result (objects s ! x)
              \<and> pnl (reconciled result now (objects s ! x)) > 0) rs))
    \<and> loss_count (fold (update_trade result now) rs s)
        = loss_count s + int (length (filter (\<lambda>x. closes result (objects s ! x)
              \<and> \<not> pnl (reconciled result now (objects s ! x)) > 0) rs))"
  using assms
proof (induction rs arbitrary: s)
  case Nil
  then show ?case by simp
next
  case (Cons r rs)
  let ?s1 = "update_trade result now r s"
  let ?v = "reconciled result now (objects s ! r)"
  from Cons.prems have ok: "ledger_ok s" and r: "r \<in> set (open_trades s)"
    and sub: "set rs \<subseteq> set (open_trades s)" and nin: "r \<notin> set rs" and dist: "distinct rs"
    by simp_all
  note f = update_trade_fields [OF ok r, of result now]
  from ok r have len: "r < length (objects s)" by (auto simp: ledger_ok_def)
  have dopen: "distinct (open_trades s)" using ok by (simp add: ledger_ok_def)
  have ok1: "ledger_ok ?s1" by (rule update_trade_ok [OF ok r])
  have sub1: "set rs \<subseteq> set (open_trades ?s1)"
    using sub nin dopen by (auto simp: f)
  note ih = Cons.IH [OF ok1 sub1 dist]
  have cl1: "\<And>x. closes result (objects ?s1 ! x) = closes result (objects s ! x)"
  proof -
    fix x show "closes result (objects ?s1 ! x) = closes result (objects s ! x)"
      using len by (cases "x = r") (simp_all add: f)
  qed
  have rc1: "\<And>x. x \<in> set rs \<Longrightarrow> objects ?s1 ! x = objects s ! x"
  proof -
    fix x assume "x \<in> set rs"
    with nin have "x \<noteq> r" by auto
    then show "objects ?s1 ! x = objects s ! x" by (simp add: f)
  qed
  have rcl: "map (\<lambda>x. pnl (reconciled result now (objects ?s1 ! x))) (filter (\<lambda>x. closes result (objects s ! x)) rs)
     = map (\<lambda>x. pnl (reconciled result now (objects s ! x))) (filter (\<lambda>x. closes result (objects s ! x)) rs)"
    by (rule map_cong) (simp_all add: rc1)
  have fw: "filter (\<lambda>x. closes result (objects s ! x) \<and> 0 < pnl (reconciled result now (objects ?s1 ! x))) rs
     = filter (\<lambda>x. closes result (objects s ! x) \<and> 0 < pnl (reconciled result now (objects s ! x))) rs"
    by (rule filter_cong) (simp_all add: rc1)
  have fl: "filter (\<lambda>x. closes result (objects s ! x) \<and> \<not> 0 < pnl (reconciled result now (objects ?s1 ! x))) rs
     = filter (\<lambda>x. closes result (objects s ! x) \<and> \<not> 0 < pnl (reconciled result now (objects s ! x))) rs"
    by (rule filter_cong) (simp_all add: rc1)
  let ?F = "fold (update_trade result now) rs ?s1"
  have unf: "fold (update_trade result now) (r # rs) s = ?F" by simp
  have ih1: "ledger_ok ?F" using ih by blast
  have ih2: "length (objects ?F) = length (objects ?s1)" using ih by blast
  have ih3: "\<forall>i. objects ?F ! i
      = (if i \<in> set rs then reconciled result now (objects ?s1 ! i) else objects ?s1 ! i)"
    using ih by blast
  have ih4: "open_trades ?F
      = filter (\<lambda>x. \<not> (x \<in> set rs \<and> closes result (objects s ! x))) (open_trades ?s1)"
    using ih unfolding cl1 by blast
  have ih5: "closed_trades ?F
      = closed_trades ?s1 @ filter (\<lambda>x. closes result (objects s ! x)) rs"
    using ih unfolding cl1 by blast
  have ih6: "total_pnl ?F
      = total_pnl ?s1 + sum_list (map (\<lambda>x. pnl (reconciled result now (objects s ! x)))
                           (filter (\<lambda>x. closes result (objects s ! x)) rs))"
    using ih unfolding cl1 rcl by blast
  have ih7: "win_count ?F
      = win_count ?s1 + int (length (filter (\<lambda>x. closes result (objects s ! x)
              \<and> pnl (reconciled result now (objects s ! x)) > 0) rs))"
    using ih unfolding cl1 fw by blast
  have ih8: "loss_count ?F
      = loss_count ?s1 + int (length (filter (\<lambda>x. closes result (objects s ! x)
              \<and> \<not> pnl (reconciled result now (objects s ! x)) > 0) rs))"
    using ih unfolding cl1 fl by blast
  have g1: "ledger_ok (fold (update_trade result now) (r # rs) s)"
    unfolding unf by (rule ih1)
  have g2: "length (objects (fold (update_trade result now) (r # rs) s)) = length (objects s)"
    unfolding unf ih2 by (simp add: f)
  have g3: "\<forall>i. objects (fold (update_trade result now) (r # rs) s) ! i
          = (if i \<in> set (r # rs) then reconciled result now (objects s ! i) else objects s ! i)"
  proof
    fix i
    show "objects (fold (update_trade result now) (r # rs) s) ! i
          = (if i \<in> set (r # rs) then reconciled result now (objects s ! i) else objects s ! i)"
    proof (cases "i = r")
      case True
      then show ?thesis unfolding unf using ih3 nin len by (simp add: f)
    next
      case False
      then show ?thesis unfolding unf using ih3 by (simp add: f)
    qed
  qed
  have g4: "open_trades (fold (update_trade result now) (r # rs) s)
        = filter (\<lambda>x. \<not> (x \<in> set (r # rs) \<and> closes result (objects s ! x))) (open_trades s)"
  proof (cases "closes result (objects s ! r)")
    case True
    have rm: "remove1 r (open_trades s) = filter (\<lambda>x. x \<noteq> r) (open_trades s)"
      using dopen by (simp add: distinct_remove1_removeAll removeAll_filter_not_eq) metis
    have "open_trades ?F
       = filter (\<lambda>x. \<not> (x \<in> set rs \<and> closes result (objects s ! x)))
           (filter (\<lambda>x. x \<noteq> r) (open_trades s))"
      unfolding ih4 using True by (simp add: f rm)
    also have "\<dots> = filter (\<lambda>x. \<not> (x \<in> set (r # rs) \<and> closes result (objects s ! x))) (open_trades s)"
      unfolding filter_filter by (rule filter_cong) (use True in auto)
    finally show ?thesis unfolding unf .
  next
    case False
    have "open_trades ?F
       = filter (\<lambda>x. \<not> (x \<in> set rs \<and> closes result (objects s ! x))) (open_trades s)"
      unfolding ih4 using False by (simp add: f)
    also have "\<dots> = filter (\<lambda>x. \<not> (x \<in> set (r # rs) \<and> closes result (objects s ! x))) (open_trades s)"
      by (rule filter_cong) (use False in auto)
    finally show ?thesis unfolding unf .
  qed
  have g5: "closed_trades (fold (update_trade result now) (r # rs) s)
        = closed_trades s @ filter (\<lambda>x. closes result (objects s ! x)) (r # rs)"
    unfolding unf ih5 by (simp add: f)
  have g6: "total_pnl (fold (update_trade result now) (r # rs) s)
        = total_pnl s + sum_list (map (\<lambda>x. pnl (reconciled result now (objects s ! x)))
                           (filter (\<lambda>x. closes result (objects s ! x)) (r # rs)))"
    unfolding unf ih6 by (simp add: f)
  have g7: "win_count (fold (update_trade result now) (r # rs) s)
        = win_count s + int (length (filter (\<lambda>x. closes result (objects s ! x)
              \<and> pnl (reconciled result now (objects s ! x)) > 0) (r # rs)))"
    unfolding unf ih7 by (simp add: f)
  have g8: "loss_count (fold (update_trade result now) (r # rs) s)
        = loss_count s + int (length (filter (\<lambda>x. closes result (objects s ! x)
              \<and> \<not> pnl (reconciled result now (objects s ! x)) > 0) (r # rs)))"
    unfolding unf ih8 by (simp add: f)
  show ?case using g1 g2 g3 g4 g5 g6 g7 g8 by blast
qed



lemma open_trades_append_ok:
  assumes ok: "ledger_ok s" and st: "status t = OPEN"
  shows "ledger_ok (open_trades_append t s)"
proof -
  have fresh: "length (objects s) \<notin> set (open_trades s)"
    using ok by (auto simp: ledger_ok_def)
  have o: "\<forall>r \<in> set (open_trades s). r < length (objects s @ [t])
      \<and> status ((objects s @ [t]) ! r) = OPEN"
    using ok by (auto simp: ledger_ok_def nth_append)
  have c: "\<forall>r \<in> set (closed_trades s). r < length (objects s @ [t])
      \<and> status ((objects s @ [t]) ! r) = CLOSED"
    using ok by (auto simp: ledger_ok_def nth_append)
  show ?thesis
    unfolding ledger_ok_def open_trades_append_def using ok fresh o c st
    by (simp add: ledger_ok_def)
qed

lemma reachable_ledger_ok: "reachable s \<Longrightarrow> ledger_ok s"
proof (induction rule: reachable.induct)
  case (reach_init env now)
  show ?case by (simp add: ledger_ok_def initial_bot_state_def)
next
  case (reach_start s)
  then show ?case by (simp add: ledger_ok_def start_bot_def)
next
  case (reach_stop s)
  then show ?case by (simp add: ledger_ok_def stop_bot_def)
next
  case (reach_env s env)
  then show ?case by (simp add: ledger_ok_def switch_environment_def)
next
  case (reach_balance s wallet)
  then show ?case by (cases wallet) (simp_all add: ledger_ok_def refresh_balance_def)
next
  case (reach_order s order_result smb pos now)
  then show ?case
    by (cases order_result) (simp_all add: record_order_def open_trades_append_ok)
next
  case (reach_update s positions now)
  show ?case
  proof (cases positions)
    case None
    with reach_update show ?thesis by (simp add: update_open_trades_def)
  next
    case (Some result)
    have "distinct (open_trades s)" using reach_update.IH by (simp add: ledger_ok_def)
    then have "ledger_ok (fold (update_trade result now) (open_trades s) s)"
      using fold_update_trade [OF reach_update.IH subset_refl, of result now] by blast
    with Some show ?thesis by (simp add: update_open_trades_def)
  qed
qed










lemma open_view_append:
  assumes "ledger_ok s"
  shows "open_view (open_trades_append t s) = open_view s @ [t]"
proof -
  have "map (\<lambda>r. (objects s @ [t]) ! r) (open_trades s) = map (\<lambda>r. objects s ! r) (open_trades s)"
    by (rule map_cong) (use assms in \<open>auto simp: ledger_ok_def nth_append\<close>)
  then show ?thesis by (simp add: open_view_def open_trades_append_def)
qed

lemma open_ids_view: "open_ids s = map trade_id (open_view s)"
  by (simp add: open_ids_def open_view_def)

text \<open>
  A second order with the id of an open trade: the insertion of the
  specification fails with \<open>DuplicateId\<close>, the code appends the trade, and
  the open list holds the id twice.
\<close>

theorem one_open_duplicate_id:
  "open_ids one_open = [7] \<and> trade_id example_trade = 7
   \<and> insert_spec example_trade one_open = Inl DuplicateId
   \<and> open_ids (open_trades_append example_trade one_open) = [7, 7]
   \<and> open_ids (record_order (Some 7) ''BTCUSD'' example_position ''t2'' one_open) = [7, 7]"
  by (simp add: one_open_def record_order_def open_trades_append_def initial_bot_state_def
      open_ids_def insert_spec_def example_trade_def)

text \<open>
  C2, as the code has it. The insertion appends the trade to the open list in
  every reachable state and for every trade, and changes nothing else of the
  ledger; there is no check of the id, so a trade whose id is already open is
  appended as well. \<^verbatim>\<open>trading_loop\<close> inserts this way after every acknowledged
  order.
\<close>

theorem open_trades_append_adds:
  assumes "reachable s"
  shows "open_view (open_trades_append t s) = open_view s @ [t]
    \<and> open_ids (open_trades_append t s) = open_ids s @ [trade_id t]
    \<and> closed_trades (open_trades_append t s) = closed_trades s
    \<and> (trade_id t \<in> set (open_ids s) \<longrightarrow> \<not> distinct (open_ids (open_trades_append t s)))
    \<and> record_order (Some order_id) smb pos now s
        = open_trades_append
            \<lparr>trade_id = order_id, symbol = smb, trade_side = side pos,
             trade_entry_price = entry_price pos, trade_size = position_size pos,
             trade_stop_loss = stop_loss pos, trade_take_profit = take_profit pos,
             risk = risk_amount pos, trade_potential_profit = potential_profit pos,
             pnl = 0, status = OPEN, opened_at = now, closed_at = None\<rparr> s"
proof -
  have v: "open_view (open_trades_append t s) = open_view s @ [t]"
    by (rule open_view_append [OF reachable_ledger_ok [OF assms]])
  have i: "open_ids (open_trades_append t s) = open_ids s @ [trade_id t]"
    by (simp add: open_ids_view v)
  have c: "closed_trades (open_trades_append t s) = closed_trades s"
    by (simp add: open_trades_append_def)
  have d: "trade_id t \<in> set (open_ids s) \<longrightarrow> \<not> distinct (open_ids (open_trades_append t s))"
    by (simp add: i)
  have r: "record_order (Some order_id) smb pos now s
        = open_trades_append
            \<lparr>trade_id = order_id, symbol = smb, trade_side = side pos,
             trade_entry_price = entry_price pos, trade_size = position_size pos,
             trade_stop_loss = stop_loss pos, trade_take_profit = take_profit pos,
             risk = risk_amount pos, trade_potential_profit = potential_profit pos,
             pnl = 0, status = OPEN, opened_at = now, closed_at = None\<rparr> s"
    by (simp add: record_order_def)
  show ?thesis using v i c d r by blast
qed

lemma reachable_one_open: "reachable one_open"
  unfolding one_open_def by (intro reachable.intros)

theorem open_trades_append_adds_witness:
  "open_view (open_trades_append example_trade one_open)
     = open_view one_open @ [example_trade]
   \<and> open_ids (open_trades_append example_trade one_open) = [7, 7]
   \<and> \<not> distinct (open_ids (open_trades_append example_trade one_open))"
proof -
  have i: "open_ids one_open = [7]" and t: "trade_id example_trade = 7"
    by (simp_all add: one_open_def record_order_def open_trades_append_def
        initial_bot_state_def open_ids_def example_trade_def)
  show ?thesis
    using open_trades_append_adds [OF reachable_one_open, of example_trade] by (simp add: i t)
qed

end
